theory Spec2Isabelle
  imports Complex_Main "HOL-Library.AList"
begin

section \<open>JavaScript strings: split, trim, join\<close>

text \<open>
  A string is a list of code units (\<^typ>\<open>string\<close>). \<open>js_ws\<close> is the white space that
  \<open>String.prototype.trim\<close> removes, restricted to the code units a \<^typ>\<open>char\<close> can
  hold: TAB, LF, VT, FF, CR, SPACE and NBSP.
\<close>

definition js_ws :: "char \<Rightarrow> bool" where
  "js_ws c = (c \<in> set [CHR 0x09, CHR 0x0A, CHR 0x0B, CHR 0x0C, CHR 0x0D, CHR 0x20, CHR 0xA0])"

text \<open>\<open>s.trim()\<close>\<close>

definition trim :: "string \<Rightarrow> string" where
  "trim s = rev (dropWhile js_ws (rev (dropWhile js_ws s)))"

text \<open>\<open>s.split(d)\<close> for a one-character separator: \<open>''''.split('','')\<close> is \<open>['''']\<close>.\<close>

fun split_on :: "char \<Rightarrow> string \<Rightarrow> string list" where
  "split_on d [] = [[]]"
| "split_on d (c # cs) =
     (if c = d then [] # split_on d cs
      else (case split_on d cs of [] \<Rightarrow> [[c]] | t # ts \<Rightarrow> (c # t) # ts))"

text \<open>\<open>xs.join('','')\<close>\<close>

fun join_comma :: "string list \<Rightarrow> string" where
  "join_comma [] = []"
| "join_comma [x] = x"
| "join_comma (x # y # ys) = x @ CHR '','' # join_comma (y # ys)"

text \<open>\<open>s.split('','').map(s => s.trim())\<close>, as \<open>startMonitoring\<close> computes it.\<close>

definition split_trim :: "string \<Rightarrow> string list" where
  "split_trim s = map trim (split_on (CHR '','') s)"

text \<open>\<open>s.split('','').map(s => s.trim()).filter(Boolean)\<close>: the widget's tokens.\<close>

definition symbolsArray :: "string \<Rightarrow> string list" where
  "symbolsArray s = filter (\<lambda>t. t \<noteq> []) (split_trim s)"

text \<open>\<open>hay.includes(needle)\<close>\<close>

fun starts_with :: "string \<Rightarrow> string \<Rightarrow> bool" where
  "starts_with hay [] = True"
| "starts_with [] (n # ns) = False"
| "starts_with (h # hs) (n # ns) = (h = n \<and> starts_with hs ns)"

fun includes_str :: "string \<Rightarrow> string \<Rightarrow> bool" where
  "includes_str [] needle = (needle = [])"
| "includes_str (h # hs) needle = (starts_with (h # hs) needle \<or> includes_str hs needle)"

section \<open>The symbol selector widget\<close>

text \<open>\<open>symbolCategories\<close> and \<open>allCommonSymbols = Object.values(symbolCategories).flat()\<close>\<close>

definition symbolCategories :: "(string \<times> string list) list" where
  "symbolCategories =
     [(''Major Forex'', [''EURUSD'', ''GBPUSD'', ''AUDUSD'', ''NZDUSD'', ''USDJPY'', ''USDCHF'', ''USDCAD'']),
      (''Crypto'', [''BTCUSD'']),
      (''Indices'', [''NAS100''])]"

definition allCommonSymbols :: "string list" where
  "allCommonSymbols = concat (map snd symbolCategories)"

text \<open>
  The checkbox map \<open>selectedSymbols\<close> is a JavaScript object: its keys keep their
  insertion order, \<open>{...m, [k]: v}\<close> overwrites \<open>k\<close> in place or appends it
  (\<^const>\<open>AList.update\<close>), and a missing key reads as \<open>undefined\<close>, which is falsy.
  \<open>value\<close> and \<open>disabled\<close> are the props; \<open>onChange(t)\<close> of the controlled input is
  the assignment of \<open>t\<close> to \<open>value\<close>.
\<close>

type_synonym checkbox_map = "(string \<times> bool) list"

record selector =
  "value" :: string
  disabled :: bool
  selectedSymbols :: checkbox_map
  customSymbol :: string

text \<open>\<open>m[k]\<close> read as a condition\<close>

definition checked :: "checkbox_map \<Rightarrow> string \<Rightarrow> bool" where
  "checked m k = (map_of m k = Some True)"

text \<open>\<open>Object.keys(m).filter(key => m[key])\<close>\<close>

definition checkedSymbols :: "checkbox_map \<Rightarrow> string list" where
  "checkedSymbols m = filter (checked m) (map fst m)"

text \<open>
  \<open>allCommonSymbols.forEach(symbol => { m[symbol] = symbolsArray.includes(symbol) })\<close>
\<close>

definition deriveSelected :: "string list \<Rightarrow> checkbox_map \<Rightarrow> checkbox_map" where
  "deriveSelected toks m = fold (\<lambda>symbol acc. AList.update symbol (symbol \<in> set toks) acc) allCommonSymbols m"

text \<open>The mount effect: \<open>initialSelected\<close> starts from \<open>{}\<close>.\<close>

definition initSelected :: "selector \<Rightarrow> selector" where
  "initSelected w = w\<lparr>selectedSymbols := deriveSelected (symbolsArray (value w)) []\<rparr>"

text \<open>\<open>currentCustomSymbols\<close> of \<open>updateSymbolInput\<close>\<close>

definition currentCustomSymbols :: "string \<Rightarrow> string list" where
  "currentCustomSymbols v = filter (\<lambda>s. s \<noteq> [] \<and> s \<notin> set allCommonSymbols) (split_trim v)"

text \<open>\<open>updateSymbolInput(newSelectedSymbols)\<close>: the text handed to \<open>onChange\<close>.\<close>

definition updateSymbolInput :: "selector \<Rightarrow> checkbox_map \<Rightarrow> string" where
  "updateSymbolInput w newSelectedSymbols =
     join_comma (checkedSymbols newSelectedSymbols @ currentCustomSymbols (value w))"

definition handleSymbolToggle :: "string \<Rightarrow> selector \<Rightarrow> selector" where
  "handleSymbolToggle symbol w =
     (if disabled w then w
      else let newSelectedSymbols =
                 AList.update symbol (\<not> checked (selectedSymbols w) symbol) (selectedSymbols w)
           in w\<lparr>selectedSymbols := newSelectedSymbols,
                 value := updateSymbolInput w newSelectedSymbols\<rparr>)"

definition handleAddCustomSymbol :: "selector \<Rightarrow> selector" where
  "handleAddCustomSymbol w =
     (if customSymbol w = [] \<or> disabled w then w
      else let symbols = symbolsArray (value w);
               w1 = (if customSymbol w \<notin> set symbols
                     then w\<lparr>value := join_comma (symbols @ [customSymbol w])\<rparr> else w);
               w2 = (if customSymbol w \<in> set allCommonSymbols
                     then w1\<lparr>selectedSymbols := AList.update (customSymbol w) True (selectedSymbols w)\<rparr>
                     else w1)
           in w2\<lparr>customSymbol := []\<rparr>)"

definition handleDirectInputChange :: "string \<Rightarrow> selector \<Rightarrow> selector" where
  "handleDirectInputChange newInput w =
     w\<lparr>value := newInput,
       selectedSymbols := deriveSelected (symbolsArray newInput) (selectedSymbols w)\<rparr>"

text \<open>
  Agreement of text and checkboxes: every key of the map is a catalog symbol, and a
  catalog symbol is checked exactly when it is a token of the text.
\<close>

definition synced :: "selector \<Rightarrow> bool" where
  "synced w =
     (list_all (\<lambda>k. k \<in> set allCommonSymbols) (map fst (selectedSymbols w)) \<and>
      list_all (\<lambda>s. checked (selectedSymbols w) s = (s \<in> set (symbolsArray (value w)))) allCommonSymbols)"

section \<open>Decoded JSON and the values the controller reads from it\<close>

text \<open>
  A number decoded by \<open>JSON.parse\<close> is a double: \<open>Finite q\<close> carries its exact value.
  Printing a double (\<open>ToString\<close>) is not modelled; where the code needs it, the printer
  is the parameter \<open>numstr\<close>.
\<close>

datatype js_number = Finite rat | PosInfinity | NegInfinity | NaN

datatype json =
    JNull
  | JBool bool
  | JNum js_number
  | JStr string
  | JArr "json list"
  | JObj "(string \<times> json) list"

record js_error =
  name :: string
  message :: string

definition TypeError :: "string \<Rightarrow> js_error" where
  "TypeError m = \<lparr>name = ''TypeError'', message = m\<rparr>"

definition Error :: "string \<Rightarrow> js_error" where
  "Error m = \<lparr>name = ''Error'', message = m\<rparr>"

text \<open>The condition \<open>if (v)\<close>; \<open>None\<close> is \<open>undefined\<close>.\<close>

fun truthy :: "json option \<Rightarrow> bool" where
  "truthy None = False"
| "truthy (Some JNull) = False"
| "truthy (Some (JBool b)) = b"
| "truthy (Some (JNum n)) = (n \<noteq> Finite 0 \<and> n \<noteq> NaN)"
| "truthy (Some (JStr s)) = (s \<noteq> [])"
| "truthy (Some (JArr xs)) = True"
| "truthy (Some (JObj kvs)) = True"

text \<open>
  The property read \<open>v.k\<close> for the two keys the controller reads, \<open>active\<close> and
  \<open>detail\<close>, which no built-in prototype defines: reading from \<open>null\<close> throws a
  TypeError (with the text V8 gives it), an object gives its own property, and
  every other value gives \<open>undefined\<close>.
\<close>

fun get_prop :: "json \<Rightarrow> string \<Rightarrow> js_error + json option" where
  "get_prop JNull k = Inl (TypeError (''Cannot read properties of null (reading '' @ [CHR 0x27] @ k @ [CHR 0x27] @ '')''))"
| "get_prop (JObj kvs) k = Inr (map_of kvs k)"
| "get_prop v k = Inr None"

text \<open>\<open>String(v)\<close>, as \<open>new Error(v)\<close> applies it to its argument.\<close>

fun js_to_string :: "(js_number \<Rightarrow> string) \<Rightarrow> json \<Rightarrow> string" where
  "js_to_string numstr JNull = ''null''"
| "js_to_string numstr (JBool b) = (if b then ''true'' else ''false'')"
| "js_to_string numstr (JNum n) = numstr n"
| "js_to_string numstr (JStr s) = s"
| "js_to_string numstr (JArr xs) =
     join_comma (map (\<lambda>x. if x = JNull then [] else js_to_string numstr x) xs)"
| "js_to_string numstr (JObj kvs) = ''[object Object]''"

text \<open>Decimal printing of an HTTP status inside a template literal.\<close>

fun show_nat :: "nat \<Rightarrow> string" where
  "show_nat n =
     (if n < 10 then [char_of (48 + n)] else show_nat (n div 10) @ [char_of (48 + n mod 10)])"

declare show_nat.simps [simp del]

section \<open>The network and the controller's state\<close>

text \<open>
  \<open>json_body\<close> is what \<open>response.json()\<close> settles to: \<open>Inl\<close> when the body does not
  parse. \<open>fetch\<close> rejects only with a TypeError, whose message depends on the browser.
\<close>

record response =
  status :: nat
  json_body :: "js_error + json"

definition ok :: "response \<Rightarrow> bool" where
  "ok r = (200 \<le> status r \<and> status r \<le> 299)"

datatype fetch_result = Rejected string | Resolved response

text \<open>
  \<open>riskPercentage\<close> and \<open>accountSize\<close> start as numbers and become the text of their
  input fields; the requests carry them through \<open>parseFloat\<close> or a template literal,
  neither of which is modelled, so a request records the state value itself.
\<close>

datatype js_field = NumField js_number | TextField string

text \<open>
  The requests, by endpoint: \<open>GET /health\<close>, \<open>GET /monitor/status\<close>,
  \<open>GET /monitor/signals\<close>, \<open>POST /monitor/start\<close> (symbols, risk_percentage,
  account_size), \<open>POST /monitor/stop\<close>, \<open>POST /data/chart\<close>, \<open>POST /data/levels\<close>,
  \<open>POST /data/analyze\<close> and \<open>POST /data/price\<close> (each with its symbol).
\<close>

datatype request =
    GetHealth
  | GetMonitorStatus
  | GetMonitorSignals
  | PostMonitorStart "string list" js_field js_field
  | PostMonitorStop
  | PostDataChart string
  | PostDataLevels string
  | PostDataAnalyze string js_field js_field
  | PostDataPrice string

datatype view = Dashboard | SymbolDetail

record symbol_detail =
  chart :: json
  levels :: json
  analysis :: json
  price :: json

record app =
  monitorStatus :: json
  signals :: json
  healthStatus :: json
  symbolDetails :: "string \<rightharpoonup> symbol_detail"
  selectedSymbol :: "string option"
  isLoading :: bool
  error :: "string option"
  symbolInput :: string
  riskPercentage :: js_field
  accountSize :: js_field
  activeView :: view

text \<open>
  \<open>store\<close> is the React state as the setters have left it; \<open>requests\<close> lists the
  calls of \<open>fetch\<close> in order, \<open>console\<close> the calls of \<open>console.error\<close>, and
  \<open>uncaught\<close> the exceptions that leave an async function.
  A function of the component reads the state through the variables of the render that
  created it: that snapshot is the argument \<open>c\<close> of the operations below, and the
  setters write to \<open>store\<close>.
\<close>

record world =
  store :: app
  requests :: "request list"
  console :: "(string \<times> js_error) list"
  uncaught :: "js_error list"

type_synonym network = "request \<Rightarrow> fetch_result"

definition initial_app :: app where
  "initial_app =
     \<lparr>monitorStatus = JObj [(''active'', JBool False), (''symbols'', JArr []), (''start_time'', JNull)],
      signals = JObj [],
      healthStatus = JObj [(''status'', JStr ''unknown''), (''mt5_status'', JStr ''Unknown'')],
      symbolDetails = Map.empty,
      selectedSymbol = None,
      isLoading = False,
      error = None,
      symbolInput = ''EURUSD,GBPUSD,USDJPY,XAUUSD'',
      riskPercentage = NumField (Finite (1 / 2)),
      accountSize = NumField (Finite 100000),
      activeView = Dashboard\<rparr>"

definition initial_world :: world where
  "initial_world = \<lparr>store = initial_app, requests = [], console = [], uncaught = []\<rparr>"

text \<open>\<open>await fetch(req)\<close>: the call is logged, the network answers.\<close>

definition fetch :: "network \<Rightarrow> request \<Rightarrow> world \<Rightarrow> (js_error + response) \<times> world" where
  "fetch net req w =
     ((case net req of Rejected m \<Rightarrow> Inl (TypeError m) | Resolved r \<Rightarrow> Inr r),
      w\<lparr>requests := requests w @ [req]\<rparr>)"

definition console_error :: "string \<Rightarrow> js_error \<Rightarrow> world \<Rightarrow> world" where
  "console_error label err w = w\<lparr>console := console w @ [(label, err)]\<rparr>"

definition setError :: "string option \<Rightarrow> world \<Rightarrow> world" where
  "setError e w = w\<lparr>store := (store w)\<lparr>error := e\<rparr>\<rparr>"

definition setIsLoading :: "bool \<Rightarrow> world \<Rightarrow> world" where
  "setIsLoading b w = w\<lparr>store := (store w)\<lparr>isLoading := b\<rparr>\<rparr>"

section \<open>The controller's operations\<close>

definition cors_message :: string where
  "cors_message = ''CORS Error: Cannot connect to API server. Make sure the API server is running and has CORS enabled.''"

text \<open>The \<open>try\<close> block of \<open>fetchHealthStatus\<close>: the decoded body, or what is thrown.\<close>

definition health_try :: "network \<Rightarrow> world \<Rightarrow> (js_error + json) \<times> world" where
  "health_try net w =
     (case fetch net GetHealth w of
        (Inl err, w1) \<Rightarrow> (Inl err, w1)
      | (Inr r, w1) \<Rightarrow>
          if \<not> ok r then (Inl (Error (''HTTP error! Status: '' @ show_nat (status r))), w1)
          else (json_body r, w1))"

definition fetchHealthStatus :: "network \<Rightarrow> world \<Rightarrow> world" where
  "fetchHealthStatus net w =
     (case health_try net w of
        (Inr data, w1) \<Rightarrow> setError None (w1\<lparr>store := (store w1)\<lparr>healthStatus := data\<rparr>\<rparr>)
      | (Inl err, w1) \<Rightarrow>
          let w2 = console_error ''Error fetching health status:'' err w1
          in if includes_str (message err) ''Failed to fetch'' \<or> name err = ''TypeError''
             then let w3 = setError (Some cors_message) w2
                  in w3\<lparr>store := (store w3)
                          \<lparr>healthStatus := JObj [(''status'', JStr ''error''), (''mt5_status'', JStr ''Unknown'')]\<rparr>\<rparr>
             else setError (Some (''Could not connect to API server: '' @ message err)) w2)"

text \<open>\<open>fetch\<close> followed by \<open>response.json()\<close>, with no look at the status.\<close>

definition fetch_json :: "network \<Rightarrow> request \<Rightarrow> world \<Rightarrow> (js_error + json) \<times> world" where
  "fetch_json net req w =
     (case fetch net req w of
        (Inl err, w1) \<Rightarrow> (Inl err, w1)
      | (Inr r, w1) \<Rightarrow> (json_body r, w1))"

definition fetchMonitorStatus :: "network \<Rightarrow> world \<Rightarrow> world" where
  "fetchMonitorStatus net w =
     (case fetch_json net GetMonitorStatus w of
        (Inr data, w1) \<Rightarrow> w1\<lparr>store := (store w1)\<lparr>monitorStatus := data\<rparr>\<rparr>
      | (Inl err, w1) \<Rightarrow> console_error ''Error fetching monitor status:'' err w1)"

text \<open>
  \<open>fetchSignals\<close> tests \<open>monitorStatus.active\<close> before its \<open>try\<close>: a throw there
  leaves the function.
\<close>

definition fetchSignals :: "network \<Rightarrow> app \<Rightarrow> world \<Rightarrow> world" where
  "fetchSignals net c w =
     (case get_prop (monitorStatus c) ''active'' of
        Inl err \<Rightarrow> w\<lparr>uncaught := uncaught w @ [err]\<rparr>
      | Inr active \<Rightarrow>
          if \<not> truthy active then w
          else (case fetch_json net GetMonitorSignals w of
                  (Inr data, w1) \<Rightarrow> w1\<lparr>store := (store w1)\<lparr>signals := data\<rparr>\<rparr>
                | (Inl err, w1) \<Rightarrow> console_error ''Error fetching signals:'' err w1))"

text \<open>
  The part of \<open>startMonitoring\<close> and \<open>stopMonitoring\<close> after the POST has resolved with
  a non-success status: the error that is thrown.
\<close>

definition failure_error :: "(js_number \<Rightarrow> string) \<Rightarrow> string \<Rightarrow> response \<Rightarrow> js_error" where
  "failure_error numstr fallback r =
     (case json_body r of
        Inl err \<Rightarrow> err
      | Inr errorData \<Rightarrow>
          (case get_prop errorData ''detail'' of
             Inl err \<Rightarrow> err
           | Inr detail \<Rightarrow>
               Error (if truthy detail then js_to_string numstr (the detail) else fallback)))"

definition post_and_refresh ::
  "(js_number \<Rightarrow> string) \<Rightarrow> network \<Rightarrow> request \<Rightarrow> string \<Rightarrow> string \<Rightarrow> world \<Rightarrow> world" where
  "post_and_refresh numstr net req fallback label w =
     (let w0 = setIsLoading True w;
          w2 = (case fetch net req w0 of
                  (Inl err, w1) \<Rightarrow> setError (Some (message err)) (console_error label err w1)
                | (Inr r, w1) \<Rightarrow>
                    if \<not> ok r
                    then let err = failure_error numstr fallback r
                         in setError (Some (message err)) (console_error label err w1)
                    else setError None (fetchMonitorStatus net w1))
      in setIsLoading False w2)"

definition startMonitoring :: "(js_number \<Rightarrow> string) \<Rightarrow> network \<Rightarrow> app \<Rightarrow> world \<Rightarrow> world" where
  "startMonitoring numstr net c w =
     (let symbols = split_trim (symbolInput c)
      in post_and_refresh numstr net (PostMonitorStart symbols (riskPercentage c) (accountSize c))
           ''Failed to start monitoring'' ''Error starting monitoring:'' w)"

definition stopMonitoring :: "(js_number \<Rightarrow> string) \<Rightarrow> network \<Rightarrow> world \<Rightarrow> world" where
  "stopMonitoring numstr net w =
     post_and_refresh numstr net PostMonitorStop
       ''Failed to stop monitoring'' ''Error stopping monitoring:'' w"

text \<open>
  The \<open>try\<close> block of \<open>fetchSymbolDetails\<close> up to \<open>Promise.all\<close>: the four requests
  are awaited one after the other, then the four bodies are decoded. \<open>Promise.all\<close>
  rejects with one of the rejections; the handler uses it only for the console.
\<close>

definition details_try :: "network \<Rightarrow> string \<Rightarrow> app \<Rightarrow> world \<Rightarrow> (js_error + symbol_detail) \<times> world" where
  "details_try net symbol c w =
     (case fetch net (PostDataChart symbol) w of
        (Inl err, w1) \<Rightarrow> (Inl err, w1)
      | (Inr chartResponse, w1) \<Rightarrow>
     (case fetch net (PostDataLevels symbol) w1 of
        (Inl err, w2) \<Rightarrow> (Inl err, w2)
      | (Inr levelsResponse, w2) \<Rightarrow>
     (case fetch net (PostDataAnalyze symbol (riskPercentage c) (accountSize c)) w2 of
        (Inl err, w3) \<Rightarrow> (Inl err, w3)
      | (Inr analysisResponse, w3) \<Rightarrow>
     (case fetch net (PostDataPrice symbol) w3 of
        (Inl err, w4) \<Rightarrow> (Inl err, w4)
      | (Inr priceResponse, w4) \<Rightarrow>
     (case json_body chartResponse of
        Inl err \<Rightarrow> (Inl err, w4)
      | Inr chartData \<Rightarrow>
     (case json_body levelsResponse of
        Inl err \<Rightarrow> (Inl err, w4)
      | Inr levelsData \<Rightarrow>
     (case json_body analysisResponse of
        Inl err \<Rightarrow> (Inl err, w4)
      | Inr analysisData \<Rightarrow>
     (case json_body priceResponse of
        Inl err \<Rightarrow> (Inl err, w4)
      | Inr priceData \<Rightarrow>
          (Inr \<lparr>chart = chartData, levels = levelsData, analysis = analysisData, price = priceData\<rparr>,
           w4)))))))))"

definition fetchSymbolDetails :: "network \<Rightarrow> string \<Rightarrow> app \<Rightarrow> world \<Rightarrow> world" where
  "fetchSymbolDetails net symbol c w =
     (let w0 = setIsLoading True w;
          w2 = (case details_try net symbol c w0 of
                  (Inr entry, w1) \<Rightarrow>
                    setError None
                      (w1\<lparr>store := (store w1)
                            \<lparr>symbolDetails := (symbolDetails c)(symbol \<mapsto> entry),
                             selectedSymbol := Some symbol,
                             activeView := SymbolDetail\<rparr>\<rparr>)
                | (Inl err, w1) \<Rightarrow>
                    setError (Some (''Failed to fetch details for '' @ symbol))
                      (console_error ''Error fetching symbol details:'' err w1))
      in setIsLoading False w2)"

text \<open>
  \<open>refreshData\<close>: \<open>monitorStatus\<close> in its condition is the variable of the render,
  not what \<open>fetchMonitorStatus\<close> has just stored.
\<close>

definition refreshData :: "network \<Rightarrow> app \<Rightarrow> world \<Rightarrow> world" where
  "refreshData net c w =
     (let w1 = fetchHealthStatus net w;
          w2 = fetchMonitorStatus net w1
      in case get_prop (monitorStatus c) ''active'' of
           Inl err \<Rightarrow> w2\<lparr>uncaught := uncaught w2 @ [err]\<rparr>
         | Inr active \<Rightarrow> if truthy active then fetchSignals net c w2 else w2)"

text \<open>Every way the controller reaches the network.\<close>

datatype action =
    FetchHealthStatus
  | FetchMonitorStatus
  | FetchSignals
  | StartMonitoring
  | StopMonitoring
  | FetchSymbolDetails string
  | RefreshData

fun run :: "(js_number \<Rightarrow> string) \<Rightarrow> network \<Rightarrow> app \<Rightarrow> action \<Rightarrow> world \<Rightarrow> world" where
  "run numstr net c FetchHealthStatus w = fetchHealthStatus net w"
| "run numstr net c FetchMonitorStatus w = fetchMonitorStatus net w"
| "run numstr net c FetchSignals w = fetchSignals net c w"
| "run numstr net c StartMonitoring w = startMonitoring numstr net c w"
| "run numstr net c StopMonitoring w = stopMonitoring numstr net w"
| "run numstr net c (FetchSymbolDetails symbol) w = fetchSymbolDetails net symbol c w"
| "run numstr net c RefreshData w = refreshData net c w"

section \<open>Notions used to state the properties\<close>

text \<open>
  What a sub-request settles to: the decoded body when \<open>fetch\<close> resolves and the body
  parses, \<open>None\<close> when either promise rejects. The HTTP status plays no part.
\<close>

definition decoded :: "network \<Rightarrow> request \<Rightarrow> json option" where
  "decoded net req =
     (case net req of
        Rejected m \<Rightarrow> None
      | Resolved r \<Rightarrow> (case json_body r of Inl err \<Rightarrow> None | Inr data \<Rightarrow> Some data))"

text \<open>Whether the condition \<open>monitorStatus.active\<close> of a render holds.\<close>

definition monitor_active :: "app \<Rightarrow> bool" where
  "monitor_active c =
     (case get_prop (monitorStatus c) ''active'' of Inl err \<Rightarrow> False | Inr active \<Rightarrow> truthy active)"

text \<open>How many times the signals endpoint has been requested.\<close>

definition signal_gets :: "world \<Rightarrow> nat" where
  "signal_gets w = count_list (requests w) GetMonitorSignals"

text \<open>A token as \<open>symbolsArray\<close> produces them: not empty, no comma, nothing to trim.\<close>

definition clean :: "string \<Rightarrow> bool" where
  "clean t = (t \<noteq> [] \<and> CHR '','' \<notin> set t \<and> trim t = t)"

text \<open>What trimming a piece means: white space removed at both ends, and only there.\<close>

definition trimmed_of :: "string \<Rightarrow> string \<Rightarrow> bool" where
  "trimmed_of piece tok =
     (\<exists>pre post. piece = pre @ tok @ post \<and> list_all js_ws pre \<and> list_all js_ws post \<and>
        (tok = [] \<or> (\<not> js_ws (hd tok) \<and> \<not> js_ws (last tok))))"

text \<open>
  An execution of the controller: operations run one after the other, each with the
  answers of the network at that time and the render that created it. Nothing relates
  that render to the store: a timer or an awaited call may belong to an old render.
\<close>

type_synonym step = "network \<times> app \<times> action"

fun exec :: "(js_number \<Rightarrow> string) \<Rightarrow> step list \<Rightarrow> world \<Rightarrow> world" where
  "exec numstr [] w = w"
| "exec numstr ((net, c, act) # steps) w = exec numstr steps (run numstr net c act w)"

text \<open>The steps that reach the signals endpoint by way of \<open>fetchSignals\<close> or \<open>refreshData\<close> of an active render.\<close>

definition asks_signals :: "step \<Rightarrow> bool" where
  "asks_signals st =
     (case st of (net, c, act) \<Rightarrow> monitor_active c \<and> (act = FetchSignals \<or> act = RefreshData))"

subsection \<open>Concrete inputs\<close>

definition example_numstr :: "js_number \<Rightarrow> string" where
  "example_numstr n = ''0''"

definition json_response :: "nat \<Rightarrow> json \<Rightarrow> fetch_result" where
  "json_response st body = Resolved \<lparr>status = st, json_body = Inr body\<rparr>"

text \<open>A network that answers every request alike.\<close>

definition net_all :: "fetch_result \<Rightarrow> network" where
  "net_all res req = res"

text \<open>A network on which only the price endpoint is unreachable.\<close>

definition net_price_down :: network where
  "net_price_down req =
     (case req of
        PostDataPrice symbol \<Rightarrow> Rejected ''Failed to fetch''
      | _ \<Rightarrow> json_response 200 (JObj []))"

text \<open>A backend that refuses to start monitoring, with HTTP 400 and the given detail.\<close>

definition net_start_refused :: "string \<Rightarrow> network" where
  "net_start_refused detail req =
     (case req of
        PostMonitorStart symbols risk account \<Rightarrow> json_response 400 (JObj [(''detail'', JStr detail)])
      | _ \<Rightarrow> json_response 200 (JObj [(''active'', JBool False)]))"

text \<open>A backend that accepts the start and then reports an active monitor.\<close>

definition net_start_accepted :: network where
  "net_start_accepted req =
     (case req of
        PostMonitorStart symbols risk account \<Rightarrow> json_response 200 (JObj [(''status'', JStr ''started'')])
      | _ \<Rightarrow> json_response 200 (JObj [(''active'', JBool True)]))"

text \<open>The widget mounted on a text, and with a custom symbol typed in.\<close>

definition mounted :: "string \<Rightarrow> selector" where
  "mounted text =
     initSelected \<lparr>value = text, disabled = False, selectedSymbols = [], customSymbol = []\<rparr>"

definition typed :: "string \<Rightarrow> selector \<Rightarrow> selector" where
  "typed custom w = w\<lparr>customSymbol := custom\<rparr>"

text \<open>A render and a store with the monitor active, and a backend whose monitor has stopped.\<close>

definition active_app :: app where
  "active_app =
     initial_app\<lparr>monitorStatus :=
       JObj [(''active'', JBool True), (''symbols'', JArr [JStr ''EURUSD'']),
             (''start_time'', JStr ''2025-01-01T00:00:00'')]\<rparr>"

definition active_world :: world where
  "active_world = initial_world\<lparr>store := active_app\<rparr>"

definition net_monitor_stopped :: network where
  "net_monitor_stopped =
     net_all (json_response 200
       (JObj [(''active'', JBool False), (''symbols'', JArr []), (''start_time'', JNull)]))"

text \<open>The controller with white space and empty pieces in the symbol input.\<close>

definition spaced_input :: app where
  "spaced_input = initial_app\<lparr>symbolInput := '' EURUSD , ,GBPUSD, ''\<rparr>"

section \<open>Facts about the network log\<close>

lemma requests_setters [simp]:
  "requests (setError e w) = requests w"
  "requests (setIsLoading b w) = requests w"
  "requests (console_error l err w) = requests w"
  by (simp_all add: setError_def setIsLoading_def console_error_def)

lemma requests_fetchHealthStatus: "requests (fetchHealthStatus net w) = requests w @ [GetHealth]"
  by (cases "net GetHealth")
     (auto simp: fetchHealthStatus_def health_try_def fetch_def Let_def split: sum.splits)

lemma requests_fetchMonitorStatus:
  "requests (fetchMonitorStatus net w) = requests w @ [GetMonitorStatus]"
  by (cases "net GetMonitorStatus")
     (auto simp: fetchMonitorStatus_def fetch_json_def fetch_def split: sum.splits)

lemma requests_post_and_refresh:
  "requests (post_and_refresh numstr net req fallback label w) =
     requests w @ req #
       (case net req of Rejected m \<Rightarrow> [] | Resolved r \<Rightarrow> if ok r then [GetMonitorStatus] else [])"
  by (cases "net req")
     (auto simp: post_and_refresh_def fetch_def Let_def requests_fetchMonitorStatus)

lemma monitorStatus_fetchMonitorStatus:
  "monitorStatus (store (fetchMonitorStatus net w)) =
     (case decoded net GetMonitorStatus of None \<Rightarrow> monitorStatus (store w) | Some data \<Rightarrow> data)"
  by (cases "net GetMonitorStatus")
     (auto simp: fetchMonitorStatus_def fetch_json_def fetch_def decoded_def console_error_def
           split: sum.splits)

section \<open>The four sub-requests of the symbol details\<close>

lemma decoded_Some:
  "decoded net req = Some d \<longleftrightarrow> (\<exists>r. net req = Resolved r \<and> json_body r = Inr d)"
  by (auto simp: decoded_def split: fetch_result.splits sum.splits)

lemma decoded_None:
  "decoded net req = None \<longleftrightarrow>
     (\<exists>m. net req = Rejected m) \<or> (\<exists>r e. net req = Resolved r \<and> json_body r = Inl e)"
  by (auto simp: decoded_def split: fetch_result.splits sum.splits)

lemma details_try_requests:
  "\<exists>rs. requests (snd (details_try net symbol c w)) = requests w @ rs \<and> GetMonitorSignals \<notin> set rs"
  unfolding details_try_def fetch_def
  by (simp split: fetch_result.split sum.split)

lemma details_try_world:
  "snd (details_try net symbol c w) = w\<lparr>requests := requests (snd (details_try net symbol c w))\<rparr>"
  unfolding details_try_def fetch_def
  by (simp split: fetch_result.split sum.split)

lemma details_try_success:
  assumes "decoded net (PostDataChart symbol) = Some cd"
    and "decoded net (PostDataLevels symbol) = Some ld"
    and "decoded net (PostDataAnalyze symbol (riskPercentage c) (accountSize c)) = Some ad"
    and "decoded net (PostDataPrice symbol) = Some pd"
  shows "fst (details_try net symbol c w) = Inr \<lparr>chart = cd, levels = ld, analysis = ad, price = pd\<rparr>"
  using assms unfolding decoded_Some
  by (auto simp: details_try_def fetch_def)

lemma details_try_failure:
  assumes "decoded net (PostDataChart symbol) = None
    \<or> decoded net (PostDataLevels symbol) = None
    \<or> decoded net (PostDataAnalyze symbol (riskPercentage c) (accountSize c)) = None
    \<or> decoded net (PostDataPrice symbol) = None"
  shows "\<exists>err. fst (details_try net symbol c w) = Inl err"
  using assms unfolding decoded_None details_try_def fetch_def
  by (auto split: fetch_result.split sum.split)

text \<open>
  Claim C1. \<open>fetchSymbolDetails\<close> stores the merged entry (chart, levels, analysis,
  price) for the symbol when all four sub-requests settle to a decoded body; when any
  of the four rejects, the exception is caught, the cache is what it was (for this
  symbol and every other) and the error is \<open>Failed to fetch details for <symbol>\<close>.
\<close>

theorem fetchSymbolDetails_commits_after_all_four:
  "(decoded net (PostDataChart symbol) = Some cd \<and>
    decoded net (PostDataLevels symbol) = Some ld \<and>
    decoded net (PostDataAnalyze symbol (riskPercentage c) (accountSize c)) = Some ad \<and>
    decoded net (PostDataPrice symbol) = Some pd \<longrightarrow>
      symbolDetails (store (fetchSymbolDetails net symbol c w)) =
        (symbolDetails c)(symbol \<mapsto> \<lparr>chart = cd, levels = ld, analysis = ad, price = pd\<rparr>) \<and>
      error (store (fetchSymbolDetails net symbol c w)) = None) \<and>
   (decoded net (PostDataChart symbol) = None \<or>
    decoded net (PostDataLevels symbol) = None \<or>
    decoded net (PostDataAnalyze symbol (riskPercentage c) (accountSize c)) = None \<or>
    decoded net (PostDataPrice symbol) = None \<longrightarrow>
      symbolDetails (store (fetchSymbolDetails net symbol c w)) = symbolDetails (store w) \<and>
      error (store (fetchSymbolDetails net symbol c w)) =
        Some (''Failed to fetch details for '' @ symbol) \<and>
      uncaught (fetchSymbolDetails net symbol c w) = uncaught w)"
proof (intro conjI impI)
  let ?w0 = "setIsLoading True w"
  let ?entry = "\<lparr>chart = cd, levels = ld, analysis = ad, price = pd\<rparr>"
  assume "decoded net (PostDataChart symbol) = Some cd \<and>
    decoded net (PostDataLevels symbol) = Some ld \<and>
    decoded net (PostDataAnalyze symbol (riskPercentage c) (accountSize c)) = Some ad \<and>
    decoded net (PostDataPrice symbol) = Some pd"
  then have "fst (details_try net symbol c ?w0) = Inr ?entry"
    by (simp add: details_try_success)
  then obtain w1 where t: "details_try net symbol c ?w0 = (Inr ?entry, w1)"
    by (cases "details_try net symbol c ?w0") auto
  show "symbolDetails (store (fetchSymbolDetails net symbol c w)) = (symbolDetails c)(symbol \<mapsto> ?entry)"
    unfolding fetchSymbolDetails_def t Let_def by (simp add: setError_def setIsLoading_def)
  show "error (store (fetchSymbolDetails net symbol c w)) = None"
    unfolding fetchSymbolDetails_def t Let_def by (simp add: setError_def setIsLoading_def)
next
  let ?w0 = "setIsLoading True w"
  assume "decoded net (PostDataChart symbol) = None \<or>
    decoded net (PostDataLevels symbol) = None \<or>
    decoded net (PostDataAnalyze symbol (riskPercentage c) (accountSize c)) = None \<or>
    decoded net (PostDataPrice symbol) = None"
  then obtain err where "fst (details_try net symbol c ?w0) = Inl err"
    using details_try_failure by blast
  then obtain w1 where t: "details_try net symbol c ?w0 = (Inl err, w1)"
    by (cases "details_try net symbol c ?w0") auto
  have w1: "w1 = ?w0\<lparr>requests := requests w1\<rparr>"
    using details_try_world [of net symbol c ?w0] by (simp add: t)
  have s1: "store w1 = (store w)\<lparr>isLoading := True\<rparr>" and u1: "uncaught w1 = uncaught w"
    by (subst w1, simp add: setIsLoading_def)+
  show "symbolDetails (store (fetchSymbolDetails net symbol c w)) = symbolDetails (store w)"
    unfolding fetchSymbolDetails_def t Let_def
    by (simp add: setError_def setIsLoading_def console_error_def s1)
  show "error (store (fetchSymbolDetails net symbol c w)) = Some (''Failed to fetch details for '' @ symbol)"
    unfolding fetchSymbolDetails_def t Let_def
    by (simp add: setError_def setIsLoading_def console_error_def)
  show "uncaught (fetchSymbolDetails net symbol c w) = uncaught w"
    unfolding fetchSymbolDetails_def t Let_def
    by (simp add: setError_def setIsLoading_def console_error_def u1)
qed

theorem fetchSymbolDetails_commits_after_all_four_witness:
  "symbolDetails (store (fetchSymbolDetails (net_all (json_response 200 (JObj []))) ''EURUSD''
       initial_app initial_world)) ''EURUSD'' =
     Some \<lparr>chart = JObj [], levels = JObj [], analysis = JObj [], price = JObj []\<rparr> \<and>
   symbolDetails (store (fetchSymbolDetails net_price_down ''EURUSD'' initial_app initial_world))
       ''EURUSD'' = None \<and>
   error (store (fetchSymbolDetails net_price_down ''EURUSD'' initial_app initial_world)) =
     Some ''Failed to fetch details for EURUSD''"
  using fetchSymbolDetails_commits_after_all_four
          [where net = "net_all (json_response 200 (JObj []))" and symbol = "''EURUSD''"
             and c = initial_app and w = initial_world
             and cd = "JObj []" and ld = "JObj []" and ad = "JObj []" and pd = "JObj []"]
        fetchSymbolDetails_commits_after_all_four
          [where net = net_price_down and symbol = "''EURUSD''"
             and c = initial_app and w = initial_world]
  by (simp add: decoded_def net_all_def json_response_def net_price_down_def
        initial_world_def initial_app_def)

section \<open>Starting the monitor\<close>

text \<open>
  Claim C4, as the code has it. When the POST to \<open>/monitor/start\<close> resolves with a
  non-success status and a JSON object whose \<open>detail\<close> is a non-empty string, that
  string is the error shown, and the POST is the only request made. On a success status
  the monitor status is fetched again and the error is cleared.
\<close>

theorem startMonitoring_surfaces_nonempty_detail:
  "(net (PostMonitorStart (split_trim (symbolInput c)) (riskPercentage c) (accountSize c)) = Resolved r \<and>
    \<not> ok r \<and> json_body r = Inr errorData \<and>
    get_prop errorData ''detail'' = Inr (Some (JStr detail)) \<and> detail \<noteq> [] \<longrightarrow>
      error (store (startMonitoring numstr net c w)) = Some detail \<and>
      requests (startMonitoring numstr net c w) =
        requests w @ [PostMonitorStart (split_trim (symbolInput c)) (riskPercentage c) (accountSize c)]) \<and>
   (net (PostMonitorStart (split_trim (symbolInput c)) (riskPercentage c) (accountSize c)) = Resolved r \<and>
    ok r \<longrightarrow>
      error (store (startMonitoring numstr net c w)) = None \<and>
      requests (startMonitoring numstr net c w) =
        requests w @ [PostMonitorStart (split_trim (symbolInput c)) (riskPercentage c) (accountSize c),
                      GetMonitorStatus] \<and>
      monitorStatus (store (startMonitoring numstr net c w)) =
        monitorStatus (store (fetchMonitorStatus net w)))"
proof (intro conjI impI)
  let ?req = "PostMonitorStart (split_trim (symbolInput c)) (riskPercentage c) (accountSize c)"
  assume h: "net ?req = Resolved r \<and> \<not> ok r \<and> json_body r = Inr errorData \<and>
    get_prop errorData ''detail'' = Inr (Some (JStr detail)) \<and> detail \<noteq> []"
  then have e: "failure_error numstr ''Failed to start monitoring'' r = Error detail"
    by (simp add: failure_error_def)
  from h show "error (store (startMonitoring numstr net c w)) = Some detail"
    by (simp add: startMonitoring_def post_and_refresh_def fetch_def Let_def e Error_def
          setError_def setIsLoading_def console_error_def)
  from h show "requests (startMonitoring numstr net c w) = requests w @ [?req]"
    by (simp add: startMonitoring_def Let_def requests_post_and_refresh)
next
  let ?req = "PostMonitorStart (split_trim (symbolInput c)) (riskPercentage c) (accountSize c)"
  assume h: "net ?req = Resolved r \<and> ok r"
  then show "error (store (startMonitoring numstr net c w)) = None"
    by (simp add: startMonitoring_def post_and_refresh_def fetch_def Let_def
          setError_def setIsLoading_def)
  from h show "requests (startMonitoring numstr net c w) = requests w @ [?req, GetMonitorStatus]"
    by (simp add: startMonitoring_def Let_def requests_post_and_refresh)
  from h have "startMonitoring numstr net c w =
      setIsLoading False (setError None
        (fetchMonitorStatus net
           ((setIsLoading True w)\<lparr>requests := requests (setIsLoading True w) @ [?req]\<rparr>)))"
    by (simp add: startMonitoring_def post_and_refresh_def fetch_def Let_def)
  then show "monitorStatus (store (startMonitoring numstr net c w)) =
        monitorStatus (store (fetchMonitorStatus net w))"
    by (simp add: setIsLoading_def setError_def monitorStatus_fetchMonitorStatus
          split: option.splits)
qed

theorem startMonitoring_surfaces_nonempty_detail_witness:
  "error (store (startMonitoring example_numstr (net_start_refused ''MT5 not connected'')
       initial_app initial_world)) = Some ''MT5 not connected'' \<and>
   requests (startMonitoring example_numstr (net_start_refused ''MT5 not connected'')
       initial_app initial_world) =
     [PostMonitorStart [''EURUSD'', ''GBPUSD'', ''USDJPY'', ''XAUUSD'']
        (NumField (Finite (1 / 2))) (NumField (Finite 100000))] \<and>
   error (store (startMonitoring example_numstr net_start_accepted initial_app
       (setError (Some ''MT5 not connected'') initial_world))) = None \<and>
   monitorStatus (store (startMonitoring example_numstr net_start_accepted initial_app
       (setError (Some ''MT5 not connected'') initial_world))) = JObj [(''active'', JBool True)]"
  using startMonitoring_surfaces_nonempty_detail
          [where net = "net_start_refused ''MT5 not connected''" and c = initial_app
             and w = initial_world and numstr = example_numstr
             and r = "\<lparr>status = 400, json_body = Inr (JObj [(''detail'', JStr ''MT5 not connected'')])\<rparr>"
             and errorData = "JObj [(''detail'', JStr ''MT5 not connected'')]"
             and detail = "''MT5 not connected''"]
        startMonitoring_surfaces_nonempty_detail
          [where net = net_start_accepted and c = initial_app
             and w = "setError (Some ''MT5 not connected'') initial_world" and numstr = example_numstr
             and r = "\<lparr>status = 200, json_body = Inr (JObj [(''status'', JStr ''started'')])\<rparr>"]
  by (simp add: net_start_refused_def net_start_accepted_def json_response_def ok_def
        initial_world_def initial_app_def split_trim_def trim_def js_ws_def
        monitorStatus_fetchMonitorStatus decoded_def)

text \<open>
  Claim C4 as written fails for a body whose \<open>detail\<close> is the empty string: HTTP 400
  with \<open>{detail: ""}\<close> shows the fallback text, not the backend's string.
\<close>

theorem startMonitoring_empty_detail_counterexample:
  "\<not> ok \<lparr>status = 400, json_body = Inr (JObj [(''detail'', JStr [])])\<rparr> \<and>
   net_start_refused [] (PostMonitorStart (split_trim (symbolInput initial_app))
       (riskPercentage initial_app) (accountSize initial_app)) =
     Resolved \<lparr>status = 400, json_body = Inr (JObj [(''detail'', JStr [])])\<rparr> \<and>
   get_prop (JObj [(''detail'', JStr [])]) ''detail'' = Inr (Some (JStr [])) \<and>
   error (store (startMonitoring example_numstr (net_start_refused []) initial_app initial_world)) =
     Some ''Failed to start monitoring'' \<and>
   error (store (startMonitoring example_numstr (net_start_refused []) initial_app initial_world)) \<noteq>
     Some []"
  by (simp add: startMonitoring_def post_and_refresh_def fetch_def failure_error_def Let_def
        net_start_refused_def json_response_def ok_def Error_def
        setError_def setIsLoading_def console_error_def initial_world_def initial_app_def)

lemma split_on_nonempty [simp]: "split_on d s \<noteq> []"
  by (induction s) (auto split: list.splits)

lemma length_split_on: "length (split_on d s) = Suc (count_list s d)"
  by (induction s) (auto split: list.splits)

section \<open>Health, status and signals\<close>

text \<open>
  Claim C9. \<open>fetchMonitorStatus\<close> stores the decoded body as the monitor status
  whatever the HTTP status of the response is; only a rejected \<open>fetch\<close> or a body
  that does not parse leaves the state as it was, and then the failure goes to the
  console and the error is not touched.
\<close>

theorem fetchMonitorStatus_ignores_http_status:
  "(net GetMonitorStatus = Resolved r \<and> json_body r = Inr data \<longrightarrow>
      store (fetchMonitorStatus net w) = (store w)\<lparr>monitorStatus := data\<rparr> \<and>
      console (fetchMonitorStatus net w) = console w) \<and>
   (net GetMonitorStatus = Rejected m \<longrightarrow>
      store (fetchMonitorStatus net w) = store w \<and>
      console (fetchMonitorStatus net w) =
        console w @ [(''Error fetching monitor status:'', TypeError m)]) \<and>
   (net GetMonitorStatus = Resolved r \<and> json_body r = Inl err \<longrightarrow>
      store (fetchMonitorStatus net w) = store w \<and>
      console (fetchMonitorStatus net w) =
        console w @ [(''Error fetching monitor status:'', err)])"
  by (simp add: fetchMonitorStatus_def fetch_json_def fetch_def console_error_def)

theorem fetchMonitorStatus_ignores_http_status_witness:
  "monitorStatus (store (fetchMonitorStatus
       (net_all (json_response 500 (JObj [(''detail'', JStr ''Internal Server Error'')])))
       initial_world)) = JObj [(''detail'', JStr ''Internal Server Error'')] \<and>
   store (fetchMonitorStatus (net_all (Rejected ''Failed to fetch'')) initial_world) =
     store initial_world \<and>
   store (fetchMonitorStatus
       (net_all (Resolved \<lparr>status = 200,
          json_body = Inl \<lparr>name = ''SyntaxError'', message = ''Unexpected end of JSON input''\<rparr>\<rparr>))
       initial_world) = store initial_world"
  using fetchMonitorStatus_ignores_http_status
          [where net = "net_all (json_response 500 (JObj [(''detail'', JStr ''Internal Server Error'')]))"
             and w = initial_world
             and r = "\<lparr>status = 500, json_body = Inr (JObj [(''detail'', JStr ''Internal Server Error'')])\<rparr>"
             and data = "JObj [(''detail'', JStr ''Internal Server Error'')]"]
        fetchMonitorStatus_ignores_http_status
          [where net = "net_all (Rejected ''Failed to fetch'')" and w = initial_world
             and m = "''Failed to fetch''"]
        fetchMonitorStatus_ignores_http_status
          [where net = "net_all (Resolved \<lparr>status = 200,
               json_body = Inl \<lparr>name = ''SyntaxError'', message = ''Unexpected end of JSON input''\<rparr>\<rparr>)"
             and w = initial_world
             and r = "\<lparr>status = 200,
               json_body = Inl \<lparr>name = ''SyntaxError'', message = ''Unexpected end of JSON input''\<rparr>\<rparr>"
             and err = "\<lparr>name = ''SyntaxError'', message = ''Unexpected end of JSON input''\<rparr>"]
  by (simp add: net_all_def json_response_def)



lemma fetchSignals_inactive:
  "\<not> monitor_active c \<Longrightarrow>
     requests (fetchSignals net c w) = requests w \<and> store (fetchSignals net c w) = store w"
  by (auto simp: monitor_active_def fetchSignals_def split: sum.splits)

text \<open>The guard of \<open>fetchSignals\<close> looks at the render, whatever the store holds by then.\<close>

lemma fetchSignals_follows_render:
  "monitor_active c \<Longrightarrow> requests (fetchSignals net c w) = requests w @ [GetMonitorSignals]"
  by (cases "net GetMonitorSignals")
     (auto simp: monitor_active_def fetchSignals_def fetch_json_def fetch_def console_error_def
           split: sum.splits)

lemma refreshData_inactive:
  "\<not> monitor_active c \<Longrightarrow> requests (refreshData net c w) = requests w @ [GetHealth, GetMonitorStatus]"
  by (auto simp: refreshData_def Let_def monitor_active_def requests_fetchMonitorStatus
        requests_fetchHealthStatus split: sum.splits)

lemma signal_gets_run:
  assumes "\<not> monitor_active c"
  shows "signal_gets (run numstr net c act w) = signal_gets w"
proof (cases act)
  case (FetchSymbolDetails symbol)
  obtain rs where rs: "requests (snd (details_try net symbol c (setIsLoading True w))) = requests w @ rs"
      "GetMonitorSignals \<notin> set rs"
    using details_try_requests [of net symbol c "setIsLoading True w"] by auto
  have "requests (fetchSymbolDetails net symbol c w) = requests w @ rs"
    using rs(1) by (cases "details_try net symbol c (setIsLoading True w)")
      (auto simp: fetchSymbolDetails_def Let_def split: sum.splits)
  with rs(2) FetchSymbolDetails show ?thesis
    by (simp add: signal_gets_def count_list_0_iff)
next
  case RefreshData
  with assms show ?thesis by (simp add: signal_gets_def refreshData_inactive)
next
  case FetchSignals
  with assms show ?thesis by (simp add: signal_gets_def fetchSignals_inactive)
qed (auto simp: signal_gets_def requests_fetchHealthStatus requests_fetchMonitorStatus
       startMonitoring_def stopMonitoring_def Let_def
       requests_post_and_refresh split: fetch_result.splits)

lemma refreshData_requests:
  "requests (refreshData net c w) =
     requests w @ [GetHealth, GetMonitorStatus] @ (if monitor_active c then [GetMonitorSignals] else [])"
proof (cases "monitor_active c")
  case True
  then have "refreshData net c w = fetchSignals net c (fetchMonitorStatus net (fetchHealthStatus net w))"
    by (auto simp: refreshData_def Let_def monitor_active_def split: sum.splits)
  with True show ?thesis
    by (simp add: fetchSignals_follows_render requests_fetchMonitorStatus requests_fetchHealthStatus)
next
  case False
  then show ?thesis by (simp add: refreshData_inactive)
qed

lemma signal_gets_run_exact:
  "signal_gets (run numstr net c act w) =
     signal_gets w + (if asks_signals (net, c, act) then 1 else 0)"
proof (cases "monitor_active c")
  case False
  then show ?thesis by (simp add: signal_gets_run asks_signals_def)
next
  case True
  show ?thesis
  proof (cases act)
    case (FetchSymbolDetails symbol)
    obtain rs where rs: "requests (snd (details_try net symbol c (setIsLoading True w))) = requests w @ rs"
        "GetMonitorSignals \<notin> set rs"
      using details_try_requests [of net symbol c "setIsLoading True w"] by auto
    have "requests (fetchSymbolDetails net symbol c w) = requests w @ rs"
      using rs(1) by (cases "details_try net symbol c (setIsLoading True w)")
        (auto simp: fetchSymbolDetails_def Let_def split: sum.splits)
    with rs(2) FetchSymbolDetails show ?thesis
      by (simp add: signal_gets_def count_list_0_iff asks_signals_def)
  next
    case RefreshData
    with True show ?thesis by (simp add: signal_gets_def refreshData_requests asks_signals_def)
  next
    case FetchSignals
    with True show ?thesis by (simp add: signal_gets_def fetchSignals_follows_render asks_signals_def)
  qed (auto simp: signal_gets_def requests_fetchHealthStatus requests_fetchMonitorStatus
         startMonitoring_def stopMonitoring_def Let_def asks_signals_def
         requests_post_and_refresh split: fetch_result.splits)
qed

lemma signal_gets_exec:
  "signal_gets (exec numstr steps w) = signal_gets w + length (filter asks_signals steps)"
proof (induction steps arbitrary: w)
  case Nil
  show ?case by simp
next
  case (Cons st steps)
  obtain net c act where st: "st = (net, c, act)" by (cases st)
  show ?case unfolding st by (simp add: Cons.IH signal_gets_run_exact)
qed

text \<open>
  Claim C6, as the code has it. The guards test \<open>monitorStatus.active\<close> of the render
  that created the function. From a render in which it is false, \<open>fetchSignals\<close>
  returns at once, with no request and the state as it was, and no operation adds a
  signals request. \<open>refreshData\<close> requests health and status, and then signals exactly
  when its render is active, whatever status it has just stored. In an execution the
  signals endpoint is requested once for each \<open>fetchSignals\<close> or \<open>refreshData\<close> of an
  active render, and never otherwise.
\<close>

theorem signals_requested_by_active_renders_only:
  "(\<not> monitor_active c \<longrightarrow>
      requests (fetchSignals net c w) = requests w \<and> store (fetchSignals net c w) = store w) \<and>
   (get_prop (monitorStatus c) ''active'' = Inr active \<and> \<not> truthy active \<longrightarrow>
      fetchSignals net c w = w) \<and>
   requests (refreshData net c w) =
     requests w @ [GetHealth, GetMonitorStatus] @ (if monitor_active c then [GetMonitorSignals] else []) \<and>
   (\<not> monitor_active c \<longrightarrow> signal_gets (run numstr net c act w) = signal_gets w) \<and>
   signal_gets (exec numstr steps w) = signal_gets w + length (filter asks_signals steps)"
proof (intro conjI impI)
  assume "get_prop (monitorStatus c) ''active'' = Inr active \<and> \<not> truthy active"
  then show "fetchSignals net c w = w"
    by (simp add: fetchSignals_def)
qed (simp_all add: fetchSignals_inactive signal_gets_run refreshData_requests signal_gets_exec)

theorem signals_requested_by_active_renders_only_witness:
  "fetchSignals net_monitor_stopped initial_app initial_world = initial_world \<and>
   requests (refreshData net_monitor_stopped initial_app initial_world) = [GetHealth, GetMonitorStatus] \<and>
   signal_gets (run example_numstr net_monitor_stopped initial_app RefreshData initial_world) = 0 \<and>
   signal_gets (exec example_numstr
      [(net_monitor_stopped, initial_app, RefreshData), (net_monitor_stopped, active_app, FetchSignals),
       (net_monitor_stopped, initial_app, FetchSignals)] initial_world) = 1"
  using signals_requested_by_active_renders_only
          [where net = net_monitor_stopped and c = initial_app and w = initial_world
             and act = RefreshData and numstr = example_numstr and active = "Some (JBool False)"
             and steps = "[(net_monitor_stopped, initial_app, RefreshData),
                           (net_monitor_stopped, active_app, FetchSignals),
                           (net_monitor_stopped, initial_app, FetchSignals)]"]
  by (simp add: monitor_active_def initial_app_def initial_world_def signal_gets_def
        asks_signals_def active_app_def)

text \<open>
  Claim C6 as written fails when the monitor stops between a render and a refresh:
  \<open>refreshData\<close> of an active render stores the inactive status it has fetched and
  then, testing the variable of its render, still requests the signals.
\<close>

theorem refreshData_stale_render_counterexample:
  "store active_world = active_app \<and>
   monitor_active active_app \<and>
   \<not> monitor_active (store (fetchMonitorStatus net_monitor_stopped
        (fetchHealthStatus net_monitor_stopped active_world))) \<and>
   refreshData net_monitor_stopped active_app active_world =
     fetchSignals net_monitor_stopped active_app
       (fetchMonitorStatus net_monitor_stopped (fetchHealthStatus net_monitor_stopped active_world)) \<and>
   requests (fetchMonitorStatus net_monitor_stopped (fetchHealthStatus net_monitor_stopped active_world)) =
     [GetHealth, GetMonitorStatus] \<and>
   requests (refreshData net_monitor_stopped active_app active_world) =
     [GetHealth, GetMonitorStatus, GetMonitorSignals]"
  by (simp add: active_world_def active_app_def initial_world_def initial_app_def
        net_monitor_stopped_def net_all_def json_response_def monitor_active_def
        refreshData_def fetchSignals_def fetchMonitorStatus_def fetchHealthStatus_def
        health_try_def fetch_json_def fetch_def ok_def setError_def Let_def)

section \<open>Tokens of the selector's text\<close>

lemma split_on_append: "split_on d (a @ d # b) = split_on d a @ split_on d b"
  by (induction a) (auto split: list.splits)

lemma split_on_no_sep: "d \<notin> set x \<Longrightarrow> split_on d x = [x]"
  by (induction x) auto

lemma split_on_pieces: "t \<in> set (split_on d s) \<Longrightarrow> d \<notin> set t"
  by (induction s arbitrary: t) (auto split: list.splits if_splits)

lemma split_on_join:
  "xs \<noteq> [] \<Longrightarrow> \<forall>x\<in>set xs. CHR '','' \<notin> set x \<Longrightarrow> split_on (CHR '','') (join_comma xs) = xs"
proof (induction xs rule: join_comma.induct)
  case (3 x y ys)
  then show ?case by (simp add: split_on_append split_on_no_sep)
qed (simp_all add: split_on_no_sep)

lemma set_trim: "x \<in> set (trim s) \<Longrightarrow> x \<in> set s"
  by (auto simp: trim_def dest!: set_dropWhileD)

lemma dropWhile_snoc_keep: "\<not> P a \<Longrightarrow> \<exists>ys. dropWhile P (xs @ [a]) = ys @ [a]"
  by (induction xs) auto

lemma trim_trim: "trim (trim s) = trim s"
proof (cases "dropWhile js_ws s")
  case Nil
  have e: "trim s = []" unfolding trim_def Nil by simp
  have "trim [] = []" unfolding trim_def by simp
  then show ?thesis unfolding e .
next
  case (Cons a u)
  then have a: "\<not> js_ws a" by (metis hd_dropWhile list.sel(1) list.distinct(1))
  obtain ys where ys: "dropWhile js_ws (rev u @ [a]) = ys @ [a]"
    using dropWhile_snoc_keep [of js_ws a "rev u"] a by blast
  have t: "trim s = a # rev ys" by (simp add: trim_def Cons ys)
  have "dropWhile js_ws (rev (a # rev ys)) = ys @ [a]"
    using ys by (metis Cons dropWhile_idem rev.simps(2) rev_rev_ident)
  then show ?thesis unfolding t by (simp add: trim_def a)
qed

lemma clean_symbolsArray: "t \<in> set (symbolsArray s) \<Longrightarrow> clean t"
  using set_trim split_on_pieces
  by (fastforce simp: symbolsArray_def split_trim_def clean_def trim_trim)

lemma symbolsArray_join:
  assumes "\<forall>x\<in>set xs. clean x"
  shows "symbolsArray (join_comma xs) = xs"
proof (cases xs)
  case Nil
  then show ?thesis by (simp add: symbolsArray_def split_trim_def trim_def)
next
  case (Cons x ys)
  with assms have "split_on (CHR '','') (join_comma xs) = xs"
    by (intro split_on_join) (auto simp: clean_def)
  moreover have "map trim xs = xs" using assms by (simp add: clean_def map_idI)
  moreover have "filter (\<lambda>t. t \<noteq> []) xs = xs" using assms by (auto simp: clean_def filter_id_conv)
  ultimately show ?thesis by (simp add: symbolsArray_def split_trim_def)
qed

lemma clean_allCommonSymbols: "s \<in> set allCommonSymbols \<Longrightarrow> clean s"
  by (auto simp: allCommonSymbols_def symbolCategories_def clean_def trim_def js_ws_def)

lemma currentCustomSymbols_filter:
  "currentCustomSymbols v = filter (\<lambda>s. s \<notin> set allCommonSymbols) (symbolsArray v)"
  by (simp add: currentCustomSymbols_def symbolsArray_def conj_commute)


lemma map_of_fold_update:
  "map_of (fold (\<lambda>s acc. AList.update s (f s) acc) ks m) k =
     (if k \<in> set ks then Some (f k) else map_of m k)"
  by (induction ks arbitrary: m) (auto simp: update_conv')

lemma keys_fold_update:
  "fst ` set (fold (\<lambda>s acc. AList.update s (f s) acc) ks m) = fst ` set m \<union> set ks"
  by (induction ks arbitrary: m) (auto simp: dom_update)

lemma fold_update_triv:
  "\<forall>s\<in>set ks. map_of m s = Some (f s) \<Longrightarrow> fold (\<lambda>s acc. AList.update s (f s) acc) ks m = m"
  by (induction ks) (auto simp: update_triv)

lemma map_of_deriveSelected:
  "map_of (deriveSelected toks m) k =
     (if k \<in> set allCommonSymbols then Some (k \<in> set toks) else map_of m k)"
  unfolding deriveSelected_def by (rule map_of_fold_update)

lemma keys_deriveSelected:
  "fst ` set (deriveSelected toks m) = fst ` set m \<union> set allCommonSymbols"
  unfolding deriveSelected_def by (rule keys_fold_update)

lemma deriveSelected_agree:
  assumes "\<forall>s\<in>set allCommonSymbols. map_of m s = Some (s \<in> set toks)"
  shows "deriveSelected toks m = m"
  unfolding deriveSelected_def using assms by (rule fold_update_triv)

lemma deriveSelected_idem: "deriveSelected toks (deriveSelected toks m) = deriveSelected toks m"
  by (rule deriveSelected_agree) (simp add: map_of_deriveSelected)

lemma in_checkedSymbols: "k \<in> set (checkedSymbols m) \<longleftrightarrow> checked m k"
  by (auto simp: checkedSymbols_def checked_def dest: map_of_SomeD intro: rev_image_eqI)

lemma checkedSymbols_keys: "set (checkedSymbols m) \<subseteq> set (map fst m)"
  by (auto simp: checkedSymbols_def)

lemma clean_emitted:
  assumes "set (map fst m) \<subseteq> set allCommonSymbols"
  shows "\<forall>x\<in>set (checkedSymbols m @ currentCustomSymbols v). clean x"
proof
  fix x assume "x \<in> set (checkedSymbols m @ currentCustomSymbols v)"
  then consider "x \<in> set (checkedSymbols m)" | "x \<in> set (symbolsArray v)"
    by (auto simp: currentCustomSymbols_filter)
  then show "clean x"
  proof cases
    case 1
    with assms checkedSymbols_keys [of m] have "x \<in> set allCommonSymbols" by blast
    then show ?thesis by (rule clean_allCommonSymbols)
  next
    case 2
    then show ?thesis by (rule clean_symbolsArray)
  qed
qed

lemma symbolsArray_updateSymbolInput:
  assumes "set (map fst m) \<subseteq> set allCommonSymbols"
  shows "symbolsArray (updateSymbolInput w m) = checkedSymbols m @ currentCustomSymbols (value w)"
  unfolding updateSymbolInput_def by (rule symbolsArray_join) (rule clean_emitted [OF assms])

lemma custom_part_emitted:
  assumes "set (map fst m) \<subseteq> set allCommonSymbols"
  shows "filter (\<lambda>s. s \<notin> set allCommonSymbols) (checkedSymbols m @ currentCustomSymbols v) =
         currentCustomSymbols v"
proof -
  have "filter (\<lambda>s. s \<notin> set allCommonSymbols) (checkedSymbols m) = []"
    using assms checkedSymbols_keys [of m] by (auto simp: filter_empty_conv)
  then show ?thesis by (simp add: currentCustomSymbols_filter)
qed


lemma empty_not_common: "[] \<notin> set allCommonSymbols"
  by (simp add: allCommonSymbols_def symbolCategories_def)

lemma catalog_keys_preserved:
  assumes "set (map fst (selectedSymbols w)) \<subseteq> set allCommonSymbols"
  shows "set (map fst (selectedSymbols (handleDirectInputChange text w))) \<subseteq> set allCommonSymbols"
    and "symbol \<in> set allCommonSymbols \<Longrightarrow>
         set (map fst (selectedSymbols (handleSymbolToggle symbol w))) \<subseteq> set allCommonSymbols"
    and "set (map fst (selectedSymbols (handleAddCustomSymbol w))) \<subseteq> set allCommonSymbols"
  using assms
  by (auto simp: handleDirectInputChange_def handleSymbolToggle_def handleAddCustomSymbol_def
        Let_def keys_deriveSelected dom_update)

lemma catalog_keys_mounted: "set (map fst (selectedSymbols (mounted text))) \<subseteq> set allCommonSymbols"
  by (simp add: mounted_def initSelected_def keys_deriveSelected)

lemma synced_iff:
  "synced w \<longleftrightarrow>
     set (map fst (selectedSymbols w)) \<subseteq> set allCommonSymbols \<and>
     (\<forall>s\<in>set allCommonSymbols. checked (selectedSymbols w) s = (s \<in> set (symbolsArray (value w))))"
  by (auto simp: synced_def list_all_iff)

lemma synced_mounted: "synced (mounted text)"
  unfolding synced_iff
  by (auto simp: mounted_def initSelected_def keys_deriveSelected checked_def map_of_deriveSelected)

lemma synced_handleDirectInputChange:
  "set (map fst (selectedSymbols w)) \<subseteq> set allCommonSymbols \<Longrightarrow> synced (handleDirectInputChange text w)"
  unfolding synced_iff
  by (auto simp: handleDirectInputChange_def keys_deriveSelected checked_def map_of_deriveSelected)

lemma synced_handleSymbolToggle:
  assumes "set (map fst (selectedSymbols w)) \<subseteq> set allCommonSymbols"
    and "symbol \<in> set allCommonSymbols" and "\<not> disabled w"
  shows "synced (handleSymbolToggle symbol w)"
proof -
  let ?m = "AList.update symbol (\<not> checked (selectedSymbols w) symbol) (selectedSymbols w)"
  from assms have keys: "set (map fst ?m) \<subseteq> set allCommonSymbols"
    by (auto simp: dom_update)
  from assms have sel: "selectedSymbols (handleSymbolToggle symbol w) = ?m"
    and val: "value (handleSymbolToggle symbol w) = updateSymbolInput w ?m"
    by (simp_all add: handleSymbolToggle_def Let_def)
  show ?thesis
    unfolding synced_iff sel val symbolsArray_updateSymbolInput [OF keys]
    using keys by (auto simp: in_checkedSymbols currentCustomSymbols_filter)
qed

lemma synced_handleAddCustomSymbol:
  assumes "synced w" and "clean (customSymbol w) \<or> customSymbol w \<in> set (symbolsArray (value w))"
  shows "synced (handleAddCustomSymbol w)"
proof (cases "customSymbol w = [] \<or> disabled w")
  case True
  with assms show ?thesis by (simp add: handleAddCustomSymbol_def)
next
  case False
  let ?c = "customSymbol w"
  let ?toks = "symbolsArray (value w)"
  from assms(2) have cl: "clean ?c" using clean_symbolsArray by blast
  have new_toks: "symbolsArray (value (handleAddCustomSymbol w)) =
                    (if ?c \<in> set ?toks then ?toks else ?toks @ [?c])"
  proof (cases "?c \<in> set ?toks")
    case True
    with False show ?thesis by (simp add: handleAddCustomSymbol_def Let_def)
  next
    case notin: False
    have "\<forall>x\<in>set (?toks @ [?c]). clean x" using cl clean_symbolsArray by auto
    then have "symbolsArray (join_comma (?toks @ [?c])) = ?toks @ [?c]" by (rule symbolsArray_join)
    with False notin show ?thesis by (simp add: handleAddCustomSymbol_def Let_def)
  qed
  have new_sel: "selectedSymbols (handleAddCustomSymbol w) =
                   (if ?c \<in> set allCommonSymbols then AList.update ?c True (selectedSymbols w)
                    else selectedSymbols w)"
    using False by (simp add: handleAddCustomSymbol_def Let_def)
  from assms(1) show ?thesis
    unfolding synced_iff new_toks new_sel
    by (auto simp: checked_def update_conv' dom_update)
qed

section \<open>The symbols that startMonitoring posts\<close>

lemma join_comma_Cons: "join_comma ((c # t) # ts) = c # join_comma (t # ts)"
  by (cases ts) simp_all

lemma join_comma_split_on: "join_comma (split_on (CHR '','') s) = s"
proof (induction s)
  case Nil
  show ?case by simp
next
  case (Cons c cs)
  obtain t ts where sp: "split_on (CHR '','') cs = t # ts"
    by (cases "split_on (CHR '','') cs") auto
  with Cons show ?case by (auto simp: join_comma_Cons)
qed

lemma trimmed_of_trim: "trimmed_of s (trim s)"
proof -
  let ?pre = "takeWhile js_ws s"
  let ?u = "dropWhile js_ws s"
  let ?post = "rev (takeWhile js_ws (rev ?u))"
  have u: "?u = trim s @ ?post"
  proof -
    have "rev ?u = takeWhile js_ws (rev ?u) @ dropWhile js_ws (rev ?u)" by simp
    then have "rev (rev ?u) = rev (takeWhile js_ws (rev ?u) @ dropWhile js_ws (rev ?u))" by simp
    then show ?thesis unfolding trim_def by (simp only: rev_rev_ident rev_append)
  qed
  have s: "s = ?pre @ trim s @ ?post"
    using takeWhile_dropWhile_id [of js_ws s] u by simp
  have pre: "list_all js_ws ?pre" by (auto simp: list_all_iff dest: set_takeWhileD)
  have post: "list_all js_ws ?post" by (auto simp: list_all_iff dest: set_takeWhileD)
  have ends: "trim s = [] \<or> (\<not> js_ws (hd (trim s)) \<and> \<not> js_ws (last (trim s)))"
  proof (cases "trim s = []")
    case False
    then have ne: "dropWhile js_ws (rev ?u) \<noteq> []" by (simp add: trim_def)
    then have "\<not> js_ws (hd (dropWhile js_ws (rev ?u)))" by (rule hd_dropWhile)
    then have l: "\<not> js_ws (last (trim s))" using ne by (simp add: trim_def last_rev)
    have "?u = [] \<Longrightarrow> trim s = []"
      by (simp only: trim_def rev.simps dropWhile.simps)
    with False have "?u \<noteq> []" by blast
    then have "\<not> js_ws (hd ?u)" by (rule hd_dropWhile)
    moreover have "hd ?u = hd (trim s)" using False by (subst u) simp
    ultimately show ?thesis using l by simp
  qed simp
  show ?thesis unfolding trimmed_of_def using s pre post ends by blast
qed

lemma split_trim_pieces: "list_all2 trimmed_of (split_on (CHR '','') s) (split_trim s)"
  by (simp add: split_trim_def list_all2_map2 list_all2_same trimmed_of_trim)

lemma trimmed_of_unique:
  assumes "trimmed_of piece tok"
  shows "tok = trim piece"
proof -
  from assms obtain pre post where p: "piece = pre @ tok @ post"
    and pre: "\<forall>x\<in>set pre. js_ws x" and post: "\<forall>x\<in>set post. js_ws x"
    and ends: "tok = [] \<or> (\<not> js_ws (hd tok) \<and> \<not> js_ws (last tok))"
    by (auto simp: trimmed_of_def list_all_iff)
  show ?thesis
  proof (cases "tok = []")
    case True
    with p pre post have "dropWhile js_ws piece = []" by auto
    then have "trim piece = []" unfolding trim_def by (simp only: rev.simps dropWhile.simps)
    with True show ?thesis by simp
  next
    case False
    with ends have h: "\<not> js_ws (hd tok)" and l: "\<not> js_ws (last tok)" by auto
    have d1: "dropWhile js_ws piece = tok @ post"
    proof -
      have "dropWhile js_ws piece = dropWhile js_ws (tok @ post)"
        unfolding p using pre by (simp add: dropWhile_append2)
      also have "\<dots> = tok @ post" using False h by (cases tok) auto
      finally show ?thesis .
    qed
    have "dropWhile js_ws (rev post @ rev tok) = dropWhile js_ws (rev tok)"
      by (rule dropWhile_append2) (use post in auto)
    then have "dropWhile js_ws (rev (tok @ post)) = dropWhile js_ws (rev tok)"
      by simp
    also have "\<dots> = rev tok" using False l by (cases "rev tok") (auto simp: last_rev [symmetric] hd_rev)
    finally show ?thesis unfolding trim_def d1 by simp
  qed
qed

text \<open>
  Claim C10. The first request of \<open>startMonitoring\<close> is the POST whose symbols are the
  comma-separated pieces of the input (comma-free, and giving the input back when joined
  with commas), each with its white space removed at both ends, none dropped: there is
  one more symbol than there are commas. So \<open>EURUSD,,GBPUSD,\<close> posts two empty strings,
  as does \<open>" EURUSD , ,GBPUSD, "\<close>, where the widget's tokenization keeps only the two
  symbols.
\<close>

theorem startMonitoring_keeps_empty_tokens:
  "take (Suc (length (requests w))) (requests (startMonitoring numstr net c w)) =
     requests w @ [PostMonitorStart (split_trim (symbolInput c)) (riskPercentage c) (accountSize c)] \<and>
   join_comma (split_on (CHR '','') (symbolInput c)) = symbolInput c \<and>
   list_all (\<lambda>piece. CHR '','' \<notin> set piece) (split_on (CHR '','') (symbolInput c)) \<and>
   list_all2 trimmed_of (split_on (CHR '','') (symbolInput c)) (split_trim (symbolInput c)) \<and>
   length (split_trim (symbolInput c)) = Suc (count_list (symbolInput c) (CHR '','')) \<and>
   split_trim ''EURUSD,,GBPUSD,'' = [''EURUSD'', [], ''GBPUSD'', []] \<and>
   symbolsArray ''EURUSD,,GBPUSD,'' = [''EURUSD'', ''GBPUSD''] \<and>
   split_trim '' EURUSD , ,GBPUSD, '' = [''EURUSD'', [], ''GBPUSD'', []] \<and>
   symbolsArray '' EURUSD , ,GBPUSD, '' = [''EURUSD'', ''GBPUSD'']"
proof (intro conjI)
  show "take (Suc (length (requests w))) (requests (startMonitoring numstr net c w)) =
     requests w @ [PostMonitorStart (split_trim (symbolInput c)) (riskPercentage c) (accountSize c)]"
    by (simp add: startMonitoring_def Let_def requests_post_and_refresh)
  show "join_comma (split_on (CHR '','') (symbolInput c)) = symbolInput c"
    by (rule join_comma_split_on)
  show "list_all (\<lambda>piece. CHR '','' \<notin> set piece) (split_on (CHR '','') (symbolInput c))"
    by (auto simp: list_all_iff dest: split_on_pieces)
  show "list_all2 trimmed_of (split_on (CHR '','') (symbolInput c)) (split_trim (symbolInput c))"
    by (rule split_trim_pieces)
  show "length (split_trim (symbolInput c)) = Suc (count_list (symbolInput c) (CHR '',''))"
    by (simp add: split_trim_def length_split_on)
  show "split_trim ''EURUSD,,GBPUSD,'' = [''EURUSD'', [], ''GBPUSD'', []]"
    by (simp add: split_trim_def trim_def js_ws_def)
  show "symbolsArray ''EURUSD,,GBPUSD,'' = [''EURUSD'', ''GBPUSD'']"
    by (simp add: symbolsArray_def split_trim_def trim_def js_ws_def)
  show "split_trim '' EURUSD , ,GBPUSD, '' = [''EURUSD'', [], ''GBPUSD'', []]"
    by (simp add: split_trim_def trim_def js_ws_def)
  show "symbolsArray '' EURUSD , ,GBPUSD, '' = [''EURUSD'', ''GBPUSD'']"
    by (simp add: symbolsArray_def split_trim_def trim_def js_ws_def)
qed

theorem startMonitoring_keeps_empty_tokens_witness:
  "requests (startMonitoring example_numstr (net_start_refused ''MT5 not connected'') spaced_input initial_world) =
     [PostMonitorStart [''EURUSD'', [], ''GBPUSD'', []] (NumField (Finite (1 / 2))) (NumField (Finite 100000))]"
  using startMonitoring_keeps_empty_tokens [where c = spaced_input and w = initial_world and numstr = example_numstr
               and net = "net_start_refused ''MT5 not connected''"]
  by (simp add: spaced_input_def initial_app_def initial_world_def split_trim_def trim_def js_ws_def
        startMonitoring_def Let_def requests_post_and_refresh net_start_refused_def json_response_def ok_def)

section \<open>The selector's edit steps\<close>

text \<open>
  Claim C3. The text a checkbox toggle emits is the checked symbols of the new map
  followed by the tokens of the current text that are not catalog symbols. With a map
  over catalog symbols the checked ones are catalog symbols, the tokens of the emitted
  text are exactly that list, and its non-catalog tokens are those of the old text, in
  their order, none dropped. On \<open>EURUSD, GBPUSD, FOO\<close>, toggling AUDUSD on emits
  \<open>EURUSD,GBPUSD,AUDUSD,FOO\<close>.
\<close>

theorem handleSymbolToggle_emits_checked_then_custom:
  "(\<not> disabled w \<longrightarrow>
      value (handleSymbolToggle symbol w) =
        join_comma (checkedSymbols (selectedSymbols (handleSymbolToggle symbol w)) @
                    filter (\<lambda>s. s \<notin> set allCommonSymbols) (symbolsArray (value w)))) \<and>
   (\<not> disabled w \<and> symbol \<in> set allCommonSymbols \<and>
    set (map fst (selectedSymbols w)) \<subseteq> set allCommonSymbols \<longrightarrow>
      set (checkedSymbols (selectedSymbols (handleSymbolToggle symbol w))) \<subseteq> set allCommonSymbols \<and>
      symbolsArray (value (handleSymbolToggle symbol w)) =
        checkedSymbols (selectedSymbols (handleSymbolToggle symbol w)) @
        filter (\<lambda>s. s \<notin> set allCommonSymbols) (symbolsArray (value w)) \<and>
      filter (\<lambda>s. s \<notin> set allCommonSymbols) (symbolsArray (value (handleSymbolToggle symbol w))) =
        filter (\<lambda>s. s \<notin> set allCommonSymbols) (symbolsArray (value w))) \<and>
   value (handleSymbolToggle ''AUDUSD'' (mounted ''EURUSD, GBPUSD, FOO'')) = ''EURUSD,GBPUSD,AUDUSD,FOO''"
proof (intro conjI impI)
  assume "\<not> disabled w"
  then show "value (handleSymbolToggle symbol w) =
        join_comma (checkedSymbols (selectedSymbols (handleSymbolToggle symbol w)) @
                    filter (\<lambda>s. s \<notin> set allCommonSymbols) (symbolsArray (value w)))"
    by (simp add: handleSymbolToggle_def Let_def updateSymbolInput_def currentCustomSymbols_filter)
next
  let ?m = "AList.update symbol (\<not> checked (selectedSymbols w) symbol) (selectedSymbols w)"
  assume h: "\<not> disabled w \<and> symbol \<in> set allCommonSymbols \<and>
    set (map fst (selectedSymbols w)) \<subseteq> set allCommonSymbols"
  then have keys: "set (map fst ?m) \<subseteq> set allCommonSymbols"
    by (auto simp: dom_update)
  from h have sel: "selectedSymbols (handleSymbolToggle symbol w) = ?m"
    and val: "value (handleSymbolToggle symbol w) = updateSymbolInput w ?m"
    by (simp_all add: handleSymbolToggle_def Let_def)
  show "set (checkedSymbols (selectedSymbols (handleSymbolToggle symbol w))) \<subseteq> set allCommonSymbols"
    unfolding sel using keys checkedSymbols_keys [of ?m] by blast
  show toks: "symbolsArray (value (handleSymbolToggle symbol w)) =
        checkedSymbols (selectedSymbols (handleSymbolToggle symbol w)) @
        filter (\<lambda>s. s \<notin> set allCommonSymbols) (symbolsArray (value w))"
    unfolding sel val by (simp add: symbolsArray_updateSymbolInput [OF keys] currentCustomSymbols_filter)
  show "filter (\<lambda>s. s \<notin> set allCommonSymbols) (symbolsArray (value (handleSymbolToggle symbol w))) =
        filter (\<lambda>s. s \<notin> set allCommonSymbols) (symbolsArray (value w))"
    unfolding toks sel using custom_part_emitted [OF keys, of "value w"]
    by (simp add: currentCustomSymbols_filter)
next
  show "value (handleSymbolToggle ''AUDUSD'' (mounted ''EURUSD, GBPUSD, FOO'')) = ''EURUSD,GBPUSD,AUDUSD,FOO''"
    by (simp add: mounted_def handleSymbolToggle_def initSelected_def deriveSelected_def
          symbolsArray_def split_trim_def trim_def js_ws_def allCommonSymbols_def
          symbolCategories_def updateSymbolInput_def checkedSymbols_def checked_def
          currentCustomSymbols_def)
qed

theorem handleSymbolToggle_emits_checked_then_custom_witness:
  "symbolsArray (value (handleSymbolToggle ''AUDUSD'' (mounted ''EURUSD, GBPUSD, FOO''))) =
     [''EURUSD'', ''GBPUSD'', ''AUDUSD'', ''FOO''] \<and>
   filter (\<lambda>s. s \<notin> set allCommonSymbols)
     (symbolsArray (value (handleSymbolToggle ''AUDUSD'' (mounted ''EURUSD, GBPUSD, FOO'')))) = [''FOO'']"
  using handleSymbolToggle_emits_checked_then_custom
          [where w = "mounted ''EURUSD, GBPUSD, FOO''" and symbol = "''AUDUSD''"]
  by (simp add: mounted_def handleSymbolToggle_def initSelected_def deriveSelected_def
        symbolsArray_def split_trim_def trim_def js_ws_def allCommonSymbols_def
        symbolCategories_def updateSymbolInput_def checkedSymbols_def checked_def
        currentCustomSymbols_def)

text \<open>
  Claim C7. \<open>handleAddCustomSymbol\<close> appends the custom symbol to the text only when
  it is not among the text's trimmed tokens, compared as it is; a symbol already there
  leaves the text untouched. A custom symbol of the catalog has its checkbox set.
\<close>

theorem handleAddCustomSymbol_appends_once:
  "\<not> disabled w \<longrightarrow>
     (customSymbol w \<in> set (symbolsArray (value w)) \<longrightarrow>
        value (handleAddCustomSymbol w) = value w) \<and>
     (customSymbol w \<noteq> [] \<and> customSymbol w \<notin> set (symbolsArray (value w)) \<longrightarrow>
        value (handleAddCustomSymbol w) = join_comma (symbolsArray (value w) @ [customSymbol w])) \<and>
     (customSymbol w = [] \<longrightarrow> handleAddCustomSymbol w = w) \<and>
     (customSymbol w \<in> set allCommonSymbols \<longrightarrow>
        checked (selectedSymbols (handleAddCustomSymbol w)) (customSymbol w))"
proof (intro impI conjI)
  assume "\<not> disabled w" and "customSymbol w \<in> set allCommonSymbols"
  moreover from this have "customSymbol w \<noteq> []" using empty_not_common by metis
  ultimately show "checked (selectedSymbols (handleAddCustomSymbol w)) (customSymbol w)"
    by (simp add: handleAddCustomSymbol_def Let_def checked_def update_conv')
qed (auto simp: handleAddCustomSymbol_def Let_def)

theorem handleAddCustomSymbol_appends_once_witness:
  "value (handleAddCustomSymbol (typed ''FOO'' (mounted ''FOO, BAR''))) = ''FOO, BAR'' \<and>
   value (handleAddCustomSymbol (typed ''EURUSD'' (mounted ''GBPUSD , FOO''))) = ''GBPUSD,FOO,EURUSD'' \<and>
   checked (selectedSymbols (handleAddCustomSymbol (typed ''EURUSD'' (mounted ''GBPUSD , FOO'')))) ''EURUSD''"
  using handleAddCustomSymbol_appends_once [where w = "typed ''FOO'' (mounted ''FOO, BAR'')"]
        handleAddCustomSymbol_appends_once [where w = "typed ''EURUSD'' (mounted ''GBPUSD , FOO'')"]
  by (simp add: typed_def mounted_def initSelected_def symbolsArray_def split_trim_def
        trim_def js_ws_def allCommonSymbols_def symbolCategories_def)

text \<open>
  Claim C8. A direct edit checks a catalog symbol exactly when it is among the trimmed,
  non-empty pieces of the text, and this derivation is idempotent: a second direct edit
  with the same text changes nothing, and deriving the map, emitting the text that the
  map gives, and deriving again from that text gives the same map.
\<close>

theorem direct_input_derivation_idempotent:
  "(symbol \<in> set allCommonSymbols \<longrightarrow>
      checked (selectedSymbols (handleDirectInputChange newInput w)) symbol =
        (symbol \<in> set (symbolsArray newInput))) \<and>
   handleDirectInputChange newInput (handleDirectInputChange newInput w) = handleDirectInputChange newInput w \<and>
   (set (map fst (selectedSymbols w)) \<subseteq> set allCommonSymbols \<longrightarrow>
      selectedSymbols
        (handleDirectInputChange
           (updateSymbolInput (handleDirectInputChange newInput w)
              (selectedSymbols (handleDirectInputChange newInput w)))
           (handleDirectInputChange newInput w)) =
      selectedSymbols (handleDirectInputChange newInput w))"
proof (intro conjI impI)
  assume "symbol \<in> set allCommonSymbols"
  then show "checked (selectedSymbols (handleDirectInputChange newInput w)) symbol =
        (symbol \<in> set (symbolsArray newInput))"
    by (simp add: handleDirectInputChange_def checked_def map_of_deriveSelected)
next
  show "handleDirectInputChange newInput (handleDirectInputChange newInput w) = handleDirectInputChange newInput w"
    by (simp add: handleDirectInputChange_def deriveSelected_idem)
next
  let ?w1 = "handleDirectInputChange newInput w"
  let ?m1 = "deriveSelected (symbolsArray newInput) (selectedSymbols w)"
  assume "set (map fst (selectedSymbols w)) \<subseteq> set allCommonSymbols"
  then have keys: "set (map fst ?m1) \<subseteq> set allCommonSymbols"
    by (simp add: keys_deriveSelected)
  have toks: "symbolsArray (updateSymbolInput ?w1 ?m1) = checkedSymbols ?m1 @ currentCustomSymbols newInput"
    using symbolsArray_updateSymbolInput [OF keys, of ?w1] by (simp add: handleDirectInputChange_def)
  have "\<forall>s\<in>set allCommonSymbols. map_of ?m1 s = Some (s \<in> set (symbolsArray (updateSymbolInput ?w1 ?m1)))"
    unfolding toks
    by (auto simp: in_checkedSymbols checked_def map_of_deriveSelected currentCustomSymbols_filter)
  then have "deriveSelected (symbolsArray (updateSymbolInput ?w1 ?m1)) ?m1 = ?m1"
    by (rule deriveSelected_agree)
  then show "selectedSymbols (handleDirectInputChange (updateSymbolInput ?w1 (selectedSymbols ?w1)) ?w1) =
      selectedSymbols ?w1"
    by (simp add: handleDirectInputChange_def)
qed

theorem direct_input_derivation_idempotent_witness:
  "selectedSymbols
     (handleDirectInputChange
        (updateSymbolInput (handleDirectInputChange ''usdjpy, USDJPY,,FOO ,NAS100'' (mounted []))
           (selectedSymbols (handleDirectInputChange ''usdjpy, USDJPY,,FOO ,NAS100'' (mounted []))))
        (handleDirectInputChange ''usdjpy, USDJPY,,FOO ,NAS100'' (mounted []))) =
   [(''EURUSD'', False), (''GBPUSD'', False), (''AUDUSD'', False), (''NZDUSD'', False),
    (''USDJPY'', True), (''USDCHF'', False), (''USDCAD'', False), (''BTCUSD'', False),
    (''NAS100'', True)]"
  using direct_input_derivation_idempotent
          [where w = "mounted []" and newInput = "''usdjpy, USDJPY,,FOO ,NAS100''"
             and symbol = "''USDJPY''"]
  by (simp add: mounted_def initSelected_def handleDirectInputChange_def deriveSelected_def
        symbolsArray_def split_trim_def trim_def js_ws_def allCommonSymbols_def
        symbolCategories_def)

text \<open>
  Claim C2. From a state in which text and checkboxes agree, adding the custom symbol
  \<open>" EURUSD"\<close> (typed with a leading space) gives the text \<open>" EURUSD"\<close>, whose token
  is the catalog symbol EURUSD, while the checkbox of EURUSD stays unset: the two no
  longer agree. (The lemmas above show that a toggle, a direct edit and the addition of
  a clean symbol do keep them in agreement.)
\<close>

theorem handleAddCustomSymbol_untrimmed_breaks_sync:
  "synced (typed '' EURUSD'' (mounted [])) \<and>
   \<not> synced (handleAddCustomSymbol (typed '' EURUSD'' (mounted []))) \<and>
   value (handleAddCustomSymbol (typed '' EURUSD'' (mounted []))) = '' EURUSD'' \<and>
   ''EURUSD'' \<in> set (symbolsArray (value (handleAddCustomSymbol (typed '' EURUSD'' (mounted []))))) \<and>
   \<not> checked (selectedSymbols (handleAddCustomSymbol (typed '' EURUSD'' (mounted [])))) ''EURUSD''"
  by (simp add: synced_def typed_def mounted_def handleAddCustomSymbol_def initSelected_def deriveSelected_def
          symbolsArray_def split_trim_def trim_def js_ws_def allCommonSymbols_def
          symbolCategories_def checked_def Let_def)

end
